theory Spec2Isabelle
  imports Complex_Main
begin

section \<open>Numbers\<close>

text \<open>
  The TypeScript sources compute on \<^verbatim>\<open>number\<close>. Every definition below is polymorphic
  in the number type \<open>'a\<close> and uses only the operations the source uses
  (\<open>+\<close>, \<open>-\<close>, \<open>*\<close>, \<open>/\<close>, \<open>abs\<close>, \<open><\<close>, literals). The theorems instantiate \<open>'a\<close>
  with \<open>real\<close> (exact arithmetic, rounding not modelled); the type \<open>jsnum\<close> below adds
  the non-finite values of a \<^verbatim>\<open>number\<close> for the properties that speak about them.
\<close>

text \<open>
  A JavaScript number is truthy unless it is zero or NaN; no comparison with NaN holds,
  so \<open>x < 0 \<or> 0 < x\<close> says exactly that.
\<close>

definition truthy :: "'a::{zero,ord} \<Rightarrow> bool" where
  "truthy x = (x < 0 \<or> 0 < x)"

text \<open>An array length or \<^verbatim>\<open>Math.min(10, length)\<close> used as a number.\<close>

primrec num_of_nat :: "nat \<Rightarrow> 'a::{zero,one,plus}" where
  "num_of_nat 0 = 0"
| "num_of_nat (Suc n) = num_of_nat n + 1"

text \<open>
  \<^verbatim>\<open>xs.slice(-n)\<close>: the last \<open>n\<close> elements, the whole array when it is shorter,
  and (since \<^verbatim>\<open>-0\<close> is \<^verbatim>\<open>0\<close>) the whole array when \<open>n = 0\<close>.
\<close>

definition slice_last :: "nat \<Rightarrow> 'b list \<Rightarrow> 'b list" where
  "slice_last n xs = (if n = 0 then xs else drop (length xs - n) xs)"

section \<open>types.ts\<close>

datatype NetworkQuality = Excellent | Good | Fair | Poor | Critical

record 'a ClockSample =
  offset :: 'a
  rtt :: 'a
  timestamp :: 'a

datatype FrameType = Audio | Video | VideoKeyframe

record 'a MediaFrame =
  data :: "nat list"
  frame_timestamp :: 'a
  duration :: 'a
  frameType :: FrameType
  sequence :: 'a

text \<open>The fields of a \<^verbatim>\<open>clock_sync_response\<close> message that the clock reads.\<close>

record 'a ClockSyncResponse =
  t1 :: 'a
  t2 :: 'a
  t3 :: 'a

record 'a HeartbeatMessage =
  client_time :: 'a
  server_time :: "'a option"

section \<open>clock.ts: class ClockSync\<close>

text \<open>
  The mutable fields of the class. \<^verbatim>\<open>this.offset\<close> is \<open>clock_offset\<close>, because a
  sample has a field \<open>offset\<close> too. \<^verbatim>\<open>maxSamples\<close> and \<^verbatim>\<open>filterWeight\<close> are
  initialised and never assigned; they are constants here.
\<close>

record 'a ClockSync =
  clock_offset :: 'a
  drift :: 'a
  samples :: "'a ClockSample list"
  lastSyncTime :: 'a

definition maxSamples :: nat where
  "maxSamples = 20"

definition filterWeight :: "'a::{numeral,inverse}" where
  "filterWeight = 0.1"

definition new_ClockSync :: "'a::zero ClockSync" where
  "new_ClockSync = \<lparr>clock_offset = 0, drift = 0, samples = [], lastSyncTime = 0\<rparr>"

text \<open>
  Every reading of \<^verbatim>\<open>Date.now()\<close> (milliseconds) is an argument \<open>dateNow\<close> of the
  function that reads it.
\<close>

definition now :: "'a::{numeral,inverse,minus,times} ClockSync \<Rightarrow> 'a \<Rightarrow> 'a" where
  "now c dateNow =
     (let localTime = dateNow / 1000
      in localTime + clock_offset c + drift c * (localTime - lastSyncTime c))"

definition getOffset :: "'a ClockSync \<Rightarrow> 'a" where
  "getOffset c = clock_offset c"

definition getLastRTT :: "'a::{zero,numeral,times} ClockSync \<Rightarrow> 'a" where
  "getLastRTT c =
     (if length (samples c) = 0 then 0 else rtt (last (samples c)) * 1000)"

text \<open>One pass of the loop body of \<^verbatim>\<open>calculateDrift\<close> over a sample.\<close>

definition regression_step ::
  "'a::{plus,minus,times} \<Rightarrow> 'a \<times> 'a \<times> 'a \<times> 'a \<Rightarrow> 'a ClockSample \<Rightarrow> 'a \<times> 'a \<times> 'a \<times> 'a" where
  "regression_step t0 acc sample =
     (case acc of (sumX, sumY, sumXY, sumXX) \<Rightarrow>
        let x = timestamp sample - t0;
            y = offset sample
        in (sumX + x, sumY + y, sumXY + x * y, sumXX + x * x))"

text \<open>
  \<^verbatim>\<open>recent[0]\<close> exists: the function returns before reading it unless there are at
  least three samples.
\<close>

definition calculateDrift ::
  "'a::{zero,numeral,inverse,minus,power,abs,ord} ClockSync \<Rightarrow> 'a ClockSync" where
  "calculateDrift c =
     (if length (samples c) < 3 then c
      else
        let n = min 10 (length (samples c));
            recent = slice_last n (samples c);
            t0 = timestamp (hd recent);
            (sumX, sumY, sumXY, sumXX) = foldl (regression_step t0) (0, 0, 0, 0) recent;
            denom = num_of_nat n * sumXX - sumX * sumX
        in if abs denom > 0.0001
           then c\<lparr>drift := (num_of_nat n * sumXY - sumX * sumY) / denom\<rparr>
           else c)"

definition addSample ::
  "'a::{zero,numeral,inverse,minus,power,abs,ord} ClockSync \<Rightarrow> 'a ClockSample \<Rightarrow> 'a ClockSync" where
  "addSample c sample =
     (let c1 = c\<lparr>samples := samples c @ [sample]\<rparr>;
          c2 = (if length (samples c1) > maxSamples
                then c1\<lparr>samples := slice_last maxSamples (samples c1)\<rparr> else c1);
          c3 = c2\<lparr>clock_offset :=
                  clock_offset c2 * (1 - filterWeight) + offset sample * filterWeight\<rparr>;
          c4 = (if length (samples c3) \<ge> 3 then calculateDrift c3 else c3)
      in c4\<lparr>lastSyncTime := timestamp sample\<rparr>)"

text \<open>
  \<open>lastSyncT1\<close> is the global \<^verbatim>\<open>window.__lastSyncT1\<close> (\<open>None\<close> when it was never
  stored); \<^verbatim>\<open>a || b\<close> is \<open>a\<close> when \<open>a\<close> is truthy and \<open>b\<close> otherwise.
\<close>

definition stored_or_echoed_t1 :: "'a::{zero,ord} option \<Rightarrow> 'a ClockSyncResponse \<Rightarrow> 'a" where
  "stored_or_echoed_t1 lastSyncT1 response =
     (case lastSyncT1 of
        Some v \<Rightarrow> if truthy v then v else t1 response
      | None \<Rightarrow> t1 response)"

definition handleResponse ::
  "'a::{zero,numeral,inverse,minus,power,abs,ord} ClockSync \<Rightarrow> 'a option \<Rightarrow>
     'a ClockSyncResponse \<Rightarrow> 'a \<Rightarrow> 'a ClockSync" where
  "handleResponse c lastSyncT1 response dateNow =
     (let t1' = stored_or_echoed_t1 lastSyncT1 response;
          t4 = dateNow / 1000;
          rtt' = (t4 - t1') - (t3 response - t2 response);
          offset' = ((t2 response - t1') + (t3 response - t4)) / 2
      in addSample c \<lparr>offset = offset', rtt = rtt', timestamp = t4\<rparr>)"

definition updateQuickSample ::
  "'a::{zero,numeral,inverse,minus,power,abs,ord} ClockSync \<Rightarrow> 'a \<Rightarrow> 'a \<Rightarrow> 'a \<Rightarrow> 'a ClockSync" where
  "updateQuickSample c offset' rtt' dateNow =
     addSample c \<lparr>offset = offset', rtt = rtt', timestamp = dateNow / 1000\<rparr>"

definition reset :: "'a::zero ClockSync \<Rightarrow> 'a ClockSync" where
  "reset c = c\<lparr>clock_offset := 0, drift := 0, samples := [], lastSyncTime := 0\<rparr>"

section \<open>player.ts: class FutureAudioPlayer\<close>

text \<open>
  An \<^verbatim>\<open>AudioBufferSourceNode\<close> as far as this player uses it: the decoded buffer and
  the context time handed to \<^verbatim>\<open>source.start\<close>. The decoded buffer has the abstract
  type \<open>'b\<close>.
\<close>

record ('a, 'b) AudioBufferSourceNode =
  buffer :: 'b
  startTime :: 'a

record ('a, 'b) FutureAudioPlayer =
  audioContext :: bool
  futureBufferMs :: 'a
  scheduledSources :: "'a \<rightharpoonup> ('a, 'b) AudioBufferSourceNode"
  nextSequence :: nat

definition new_FutureAudioPlayer :: "'a \<Rightarrow> ('a, 'b) FutureAudioPlayer" where
  "new_FutureAudioPlayer ms =
     \<lparr>audioContext = False, futureBufferMs = ms, scheduledSources = Map.empty, nextSequence = 0\<rparr>"

definition init :: "('a, 'b) FutureAudioPlayer \<Rightarrow> ('a, 'b) FutureAudioPlayer" where
  "init p = (if \<not> audioContext p then p\<lparr>audioContext := True\<rparr> else p)"

text \<open>
  What a call of \<^verbatim>\<open>scheduleFrame\<close> does to the outside: it warns and returns
  (with the number of milliseconds it logs), it throws while decoding, or it starts a
  source on the audio device.
\<close>

datatype ('a, 'b) ScheduleEffect =
  DroppedLate 'a
| DroppedTooFar 'a
| DecodeThrows
| Started "('a, 'b) AudioBufferSourceNode"

text \<open>
  \<open>decodeAudioData\<close> stands for the private method of that name, which builds the buffer
  through the Web Audio API (\<open>None\<close> when it throws); \<open>currentTime\<close> is the reading of
  \<^verbatim>\<open>audioContext.currentTime\<close>. The \<^verbatim>\<open>onended\<close> callback runs after playback and
  is not part of the call.
\<close>

definition scheduleFrame ::
  "('a::{zero,numeral,inverse,minus,uminus,power,abs,ord}, 'b) FutureAudioPlayer \<Rightarrow> 'a ClockSync \<Rightarrow> 'a \<Rightarrow> 'a \<Rightarrow>
     (nat list \<Rightarrow> 'b option) \<Rightarrow> 'a MediaFrame \<Rightarrow>
     ('a, 'b) ScheduleEffect \<times> ('a, 'b) FutureAudioPlayer" where
  "scheduleFrame p clockSync dateNow currentTime decodeAudioData frame =
     (let p1 = (if \<not> audioContext p then init p else p);
          now' = now clockSync dateNow;
          playTime = frame_timestamp frame;
          delay = playTime - now'
      in if delay < 0 then (DroppedLate (- delay * 1000), p1)
         else if delay > 10 then (DroppedTooFar (delay * 1000), p1)
         else
           (case decodeAudioData (data frame) of
              None \<Rightarrow> (DecodeThrows, p1)
            | Some audioBuffer \<Rightarrow>
                let contextTime = currentTime + delay;
                    source = \<lparr>buffer = audioBuffer, startTime = contextTime\<rparr>
                in (Started source,
                    p1\<lparr>scheduledSources := (scheduledSources p1)(sequence frame \<mapsto> source)\<rparr>)))"

section \<open>client.ts: class SoluSyncClient\<close>

definition getNetworkQuality :: "'a::{zero,numeral,times,ord} ClockSync \<Rightarrow> NetworkQuality" where
  "getNetworkQuality clockSync =
     (let rtt' = getLastRTT clockSync
      in if rtt' < 10 then Excellent
         else if rtt' < 50 then Good
         else if rtt' < 100 then Fair
         else if rtt' < 200 then Poor
         else Critical)"

text \<open>
  \<^verbatim>\<open>Date.now()\<close> is read three times: for the round trip, for the offset, and in
  \<^verbatim>\<open>updateQuickSample\<close>.
\<close>

definition handleHeartbeat ::
  "'a::{zero,numeral,inverse,minus,power,abs,ord} ClockSync \<Rightarrow> 'a HeartbeatMessage \<Rightarrow> 'a \<Rightarrow> 'a \<Rightarrow> 'a \<Rightarrow> 'a ClockSync" where
  "handleHeartbeat clockSync message dateNow1 dateNow2 dateNow3 =
     (case server_time message of
        None \<Rightarrow> clockSync
      | Some st \<Rightarrow>
          if truthy st then
            let rtt' = dateNow1 / 1000 - client_time message;
                offset' = st - dateNow2 / 1000 + rtt' / 2
            in updateQuickSample clockSync offset' rtt' dateNow3
          else clockSync)"

section \<open>Sequences of submissions\<close>

text \<open>
  The two ways a sample reaches the clock: a reply to a probe (\<^verbatim>\<open>handleResponse\<close>) and
  a quick sample (\<^verbatim>\<open>updateQuickSample\<close>). A run starts from a new clock.
\<close>

datatype 'a submission =
  Probe "'a option" "'a ClockSyncResponse" 'a
| Quick 'a 'a 'a

fun submit ::
  "'a::{zero,numeral,inverse,minus,power,abs,ord} ClockSync \<Rightarrow> 'a submission \<Rightarrow> 'a ClockSync" where
  "submit c (Probe lastSyncT1 response dateNow) = handleResponse c lastSyncT1 response dateNow"
| "submit c (Quick offset' rtt' dateNow) = updateQuickSample c offset' rtt' dateNow"

definition run :: "'a::{zero,numeral,inverse,minus,power,abs,ord} submission list \<Rightarrow> 'a ClockSync" where
  "run subs = foldl submit new_ClockSync subs"

section \<open>Non-finite numbers\<close>

text \<open>
  A \<^verbatim>\<open>number\<close> with its non-finite values. Finite values are exact reals (no rounding,
  no overflow, one zero); the infinities and NaN follow IEEE 754: NaN propagates through
  every operation, \<open>\<infinity> - \<infinity>\<close>, \<open>0 * \<infinity>\<close>, \<open>0 / 0\<close> and \<open>\<infinity> / \<infinity>\<close> are NaN, and no
  comparison with NaN holds.
\<close>

datatype jsnum = Fin real | PInf | NInf | NaN

fun signed_inf :: "real \<Rightarrow> jsnum" where
  "signed_inf r = (if r = 0 then NaN else if 0 < r then PInf else NInf)"

instantiation jsnum :: "{zero,one,plus,minus,uminus,times,inverse,abs,ord}"
begin

definition zero_jsnum :: jsnum where
  "zero_jsnum = Fin 0"

definition one_jsnum :: jsnum where
  "one_jsnum = Fin 1"

fun uminus_jsnum :: "jsnum \<Rightarrow> jsnum" where
  "uminus_jsnum (Fin a) = Fin (- a)"
| "uminus_jsnum PInf = NInf"
| "uminus_jsnum NInf = PInf"
| "uminus_jsnum NaN = NaN"

fun plus_jsnum :: "jsnum \<Rightarrow> jsnum \<Rightarrow> jsnum" where
  "plus_jsnum NaN y = NaN"
| "plus_jsnum x NaN = NaN"
| "plus_jsnum (Fin a) (Fin b) = Fin (a + b)"
| "plus_jsnum PInf NInf = NaN"
| "plus_jsnum NInf PInf = NaN"
| "plus_jsnum PInf y = PInf"
| "plus_jsnum x PInf = PInf"
| "plus_jsnum NInf y = NInf"
| "plus_jsnum x NInf = NInf"

definition minus_jsnum :: "jsnum \<Rightarrow> jsnum \<Rightarrow> jsnum" where
  "minus_jsnum x y = x + (- y)"

fun times_jsnum :: "jsnum \<Rightarrow> jsnum \<Rightarrow> jsnum" where
  "times_jsnum NaN y = NaN"
| "times_jsnum x NaN = NaN"
| "times_jsnum (Fin a) (Fin b) = Fin (a * b)"
| "times_jsnum (Fin a) PInf = signed_inf a"
| "times_jsnum (Fin a) NInf = signed_inf (- a)"
| "times_jsnum PInf (Fin b) = signed_inf b"
| "times_jsnum NInf (Fin b) = signed_inf (- b)"
| "times_jsnum PInf PInf = PInf"
| "times_jsnum NInf NInf = PInf"
| "times_jsnum PInf NInf = NInf"
| "times_jsnum NInf PInf = NInf"

text \<open>Division by the (unsigned) zero gives the infinity of the dividend's sign.\<close>

fun divide_jsnum :: "jsnum \<Rightarrow> jsnum \<Rightarrow> jsnum" where
  "divide_jsnum NaN y = NaN"
| "divide_jsnum x NaN = NaN"
| "divide_jsnum (Fin a) (Fin b) = (if b = 0 then signed_inf a else Fin (a / b))"
| "divide_jsnum (Fin a) y = Fin 0"
| "divide_jsnum PInf (Fin b) = (if 0 \<le> b then PInf else NInf)"
| "divide_jsnum NInf (Fin b) = (if 0 \<le> b then NInf else PInf)"
| "divide_jsnum x y = NaN"

fun inverse_jsnum :: "jsnum \<Rightarrow> jsnum" where
  "inverse_jsnum (Fin a) = (if a = 0 then PInf else Fin (1 / a))"
| "inverse_jsnum NaN = NaN"
| "inverse_jsnum x = Fin 0"

fun abs_jsnum :: "jsnum \<Rightarrow> jsnum" where
  "abs_jsnum (Fin a) = Fin \<bar>a\<bar>"
| "abs_jsnum NaN = NaN"
| "abs_jsnum x = PInf"

fun less_jsnum :: "jsnum \<Rightarrow> jsnum \<Rightarrow> bool" where
  "less_jsnum NaN y = False"
| "less_jsnum x NaN = False"
| "less_jsnum (Fin a) (Fin b) = (a < b)"
| "less_jsnum x NInf = False"
| "less_jsnum PInf y = False"
| "less_jsnum x y = True"

fun less_eq_jsnum :: "jsnum \<Rightarrow> jsnum \<Rightarrow> bool" where
  "less_eq_jsnum NaN y = False"
| "less_eq_jsnum x NaN = False"
| "less_eq_jsnum x y = (x < y \<or> x = y)"

instance ..

end

instance jsnum :: semigroup_add
proof
  fix a b c :: jsnum
  show "a + b + c = a + (b + c)"
    by (cases a; cases b; cases c) simp_all
qed

instance jsnum :: numeral ..

instance jsnum :: power ..

section \<open>The specification's words\<close>

text \<open>
  Following the spec's words (section 4.1, drift estimation): ordinary least squares of
  \<open>offset_meas\<close> against \<open>t_local_recv\<close>. The slope of the least-squares line through
  the points \<open>(timestamp s, offset s)\<close> is
  \<open>(n \<Sum>ty - \<Sum>t \<Sum>y) / (n \<Sum>t\<^sup>2 - (\<Sum>t)\<^sup>2)\<close>, on the receive times themselves.
\<close>

definition ols_denominator_spec :: "real ClockSample list \<Rightarrow> real" where
  "ols_denominator_spec ss =
     real (length ss) * (\<Sum>s\<leftarrow>ss. timestamp s * timestamp s)
       - (\<Sum>s\<leftarrow>ss. timestamp s) * (\<Sum>s\<leftarrow>ss. timestamp s)"

definition ols_slope_spec :: "real ClockSample list \<Rightarrow> real" where
  "ols_slope_spec ss =
     (real (length ss) * (\<Sum>s\<leftarrow>ss. timestamp s * offset s)
        - (\<Sum>s\<leftarrow>ss. timestamp s) * (\<Sum>s\<leftarrow>ss. offset s))
     / ols_denominator_spec ss"

text \<open>
  What makes that slope the least-squares one: with the intercept below it minimises
  the sum of squared residuals \<open>\<Sum>(y - (a + b t))\<^sup>2\<close> over all lines
  (lemma \<open>ols_slope_spec_least_squares\<close>).
\<close>

definition squared_error_spec :: "real ClockSample list \<Rightarrow> real \<Rightarrow> real \<Rightarrow> real" where
  "squared_error_spec ss a b = (\<Sum>s\<leftarrow>ss. (offset s - (a + b * timestamp s)) * (offset s - (a + b * timestamp s)))"

definition ols_intercept_spec :: "real ClockSample list \<Rightarrow> real" where
  "ols_intercept_spec ss =
     ((\<Sum>s\<leftarrow>ss. offset s) - ols_slope_spec ss * (\<Sum>s\<leftarrow>ss. timestamp s)) / real (length ss)"

text \<open>
  Following the spec's words (section 4.3, adaptive depth): raw RTT inputs are smoothed
  by the same exponential moving average used for offset (weight 0.1, from 0) before
  the quality table is consulted.
\<close>

definition smoothed_rtt_spec :: "real list \<Rightarrow> real" where
  "smoothed_rtt_spec rtts = foldl (\<lambda>s r. s * (1 - 0.1) + r * 0.1) 0 rtts"

section \<open>What one insertion does to each field\<close>

lemma calculateDrift_samples: "samples (calculateDrift c) = samples c"
  by (simp add: calculateDrift_def Let_def split: prod.splits)

lemma calculateDrift_clock_offset: "clock_offset (calculateDrift c) = clock_offset c"
  by (simp add: calculateDrift_def Let_def split: prod.splits)

lemma samples_addSample:
  "samples (addSample c x) = drop (Suc (length (samples c)) - maxSamples) (samples c) @ [x]"
  by (simp add: addSample_def Let_def calculateDrift_samples slice_last_def maxSamples_def)

lemma clock_offset_addSample:
  "clock_offset (addSample c x) = clock_offset c * (1 - filterWeight) + offset x * filterWeight"
  by (simp add: addSample_def Let_def calculateDrift_clock_offset)

lemma lastSyncTime_addSample: "lastSyncTime (addSample c x) = timestamp x"
  by (simp add: addSample_def Let_def)

lemma truthy_real: "truthy (x::real) = (x \<noteq> 0)"
  by (auto simp: truthy_def)

section \<open>Offset fusion\<close>

text \<open>
  C3. Every sample that reaches \<open>addSample\<close> moves the offset by the exponential moving
  average with weight 0.1: the new offset is \<open>(1 - 0.1) * offset + 0.1 * offset_meas\<close>.
  Hence the offset moves by at most \<open>0.1 * \<bar>offset_meas - offset\<bar>\<close>, for a sample added
  directly and for the sample a probe reply produces (whatever its round-trip time).
  Numbers are exact reals.
\<close>

theorem ema_offset_update:
  fixes c :: "real ClockSync"
  shows "clock_offset (addSample c x) = (1 - 0.1) * clock_offset c + 0.1 * offset x
       \<and> \<bar>clock_offset (addSample c x) - clock_offset c\<bar> \<le> 0.1 * \<bar>offset x - clock_offset c\<bar>
       \<and> \<bar>clock_offset (handleResponse c lastSyncT1 response dateNow) - clock_offset c\<bar>
           \<le> 0.1 * \<bar>offset (last (samples (handleResponse c lastSyncT1 response dateNow))) - clock_offset c\<bar>"
proof -
  have eq: "clock_offset (addSample c y) - clock_offset c = 0.1 * (offset y - clock_offset c)" for y
    by (simp add: clock_offset_addSample filterWeight_def algebra_simps)
  have b: "\<bar>clock_offset (addSample c y) - clock_offset c\<bar> \<le> 0.1 * \<bar>offset y - clock_offset c\<bar>" for y
    unfolding eq by (simp add: abs_mult)
  have l: "offset (last (samples (addSample c y))) = offset y" for y
    by (simp add: samples_addSample)
  have "\<bar>clock_offset (addSample c y) - clock_offset c\<bar>
           \<le> 0.1 * \<bar>offset (last (samples (addSample c y))) - clock_offset c\<bar>" for y
    unfolding l by (rule b)
  then have h: "\<bar>clock_offset (handleResponse c lastSyncT1 response dateNow) - clock_offset c\<bar>
           \<le> 0.1 * \<bar>offset (last (samples (handleResponse c lastSyncT1 response dateNow))) - clock_offset c\<bar>"
    unfolding handleResponse_def Let_def by blast
  have e: "clock_offset (addSample c x) = (1 - 0.1) * clock_offset c + 0.1 * offset x"
    by (simp add: clock_offset_addSample filterWeight_def)
  from e b h show ?thesis by blast
qed

section \<open>The sample ring\<close>

text \<open>
  C9. After an insertion the ring holds at most 20 samples, whatever it held before.
  It holds the samples that were there, minus the oldest ones when there is no room,
  in their order, and the new sample last. From a new clock, after any sequence of
  insertions the ring is the last 20 of them in the order of insertion (all of them when
  there are fewer).
\<close>

theorem ring_bounded_oldest_first:
  "length (samples (addSample c x)) \<le> 20
   \<and> samples (addSample c x) = drop (Suc (length (samples c)) - 20) (samples c) @ [x]
   \<and> samples (foldl addSample new_ClockSync xs) = drop (length xs - 20) xs"
proof -
  have step: "samples (addSample c x) = drop (Suc (length (samples c)) - 20) (samples c) @ [x]"
    by (simp add: samples_addSample maxSamples_def)
  have hist: "samples (foldl addSample new_ClockSync xs) = drop (length xs - 20) xs"
  proof (induction xs rule: rev_induct)
    case Nil
    then show ?case by (simp add: new_ClockSync_def)
  next
    case (snoc y ys)
    have "length (drop (length ys - 20) ys) = min (length ys) 20"
      by simp
    moreover have "\<not> length ys \<le> 20 \<Longrightarrow> Suc (length ys - 20) = length ys - 19"
      by arith
    ultimately show ?case
      by (simp add: samples_addSample maxSamples_def snoc.IH Suc_diff_le min_def split: if_splits)
  qed
  have len: "length (samples (addSample c x)) \<le> 20"
    by (simp add: step)
  from len step hist show ?thesis by blast
qed

text \<open>The accessor after an insertion.\<close>

lemma getLastRTT_addSample: "getLastRTT (addSample c x) = rtt x * 1000"
  by (simp add: getLastRTT_def samples_addSample)

lemma getLastRTT_updateQuickSample: "getLastRTT (updateQuickSample c off r d) = r * 1000"
  by (simp add: updateQuickSample_def getLastRTT_addSample)

lemma samples_updateQuickSample:
  "samples (updateQuickSample c off r d) =
     drop (Suc (length (samples c)) - maxSamples) (samples c) @ [\<lparr>offset = off, rtt = r, timestamp = d / 1000\<rparr>]"
  by (simp add: updateQuickSample_def samples_addSample)

section \<open>Probes\<close>

text \<open>
  C1 (as amended). For every probe the clock computes
  \<open>rtt = (t4 - t1) - (t3 - t2)\<close> and \<open>offset_meas = ((t2 - t1) + (t3 - t4)) / 2\<close>, with
  \<open>t1\<close> the stored send time (the echoed one when none is stored) and \<open>t4\<close> the time of
  receipt, and always appends a sample with exactly those values and fuses it: the ring
  gets the sample as its newest entry, the offset moves by the moving average and the
  anchor becomes \<open>t4\<close>. There is no test on \<open>rtt\<close>.
\<close>

theorem probe_always_fused:
  fixes c :: "real ClockSync"
  shows "handleResponse c lastSyncT1 response dateNow =
           addSample c
             \<lparr>offset = ((t2 response - stored_or_echoed_t1 lastSyncT1 response) + (t3 response - dateNow / 1000)) / 2,
              rtt = (dateNow / 1000 - stored_or_echoed_t1 lastSyncT1 response) - (t3 response - t2 response),
              timestamp = dateNow / 1000\<rparr>
       \<and> samples (handleResponse c lastSyncT1 response dateNow) =
           drop (Suc (length (samples c)) - 20) (samples c) @
             [\<lparr>offset = ((t2 response - stored_or_echoed_t1 lastSyncT1 response) + (t3 response - dateNow / 1000)) / 2,
               rtt = (dateNow / 1000 - stored_or_echoed_t1 lastSyncT1 response) - (t3 response - t2 response),
               timestamp = dateNow / 1000\<rparr>]
       \<and> clock_offset (handleResponse c lastSyncT1 response dateNow) =
           (1 - 0.1) * clock_offset c
           + 0.1 * (((t2 response - stored_or_echoed_t1 lastSyncT1 response) + (t3 response - dateNow / 1000)) / 2)
       \<and> lastSyncTime (handleResponse c lastSyncT1 response dateNow) = dateNow / 1000"
  by (simp add: handleResponse_def Let_def samples_addSample clock_offset_addSample
      lastSyncTime_addSample maxSamples_def filterWeight_def)

text \<open>
  Counterexample to C1 as stated. From a new clock, the probe
  \<open>(t1, t2, t3, t4) = (1, 1, 5, 2)\<close> has \<open>rtt = -3\<close>; its sample is appended all the
  same, the offset goes from 0 to 0.15 and the anchor from 0 to 2.
\<close>

theorem negative_rtt_probe_fused:
  "(2000 / 1000 - 1) - (5 - 1) < (0::real)
   \<and> samples (handleResponse (new_ClockSync :: real ClockSync) (Some 1) \<lparr>t1 = 1, t2 = 1, t3 = 5\<rparr> 2000)
       = [\<lparr>offset = 3 / 2, rtt = - 3, timestamp = 2\<rparr>]
   \<and> clock_offset (handleResponse (new_ClockSync :: real ClockSync) (Some 1) \<lparr>t1 = 1, t2 = 1, t3 = 5\<rparr> 2000) = 3 / 20
   \<and> clock_offset (new_ClockSync :: real ClockSync) = 0
   \<and> lastSyncTime (handleResponse (new_ClockSync :: real ClockSync) (Some 1) \<lparr>t1 = 1, t2 = 1, t3 = 5\<rparr> 2000) = 2
   \<and> lastSyncTime (new_ClockSync :: real ClockSync) = 0"
  by (simp add: handleResponse_def Let_def samples_addSample clock_offset_addSample
      lastSyncTime_addSample maxSamples_def filterWeight_def new_ClockSync_def
      stored_or_echoed_t1_def truthy_real)

section \<open>Frame admission\<close>

text \<open>
  C2. With \<open>\<delta> = presentation time - now()\<close> at admission: when \<open>\<delta> < 0\<close> the frame is
  dropped as late, and when \<open>\<delta> > 10\<close> seconds it is dropped as too far ahead; in both
  cases no source is started and the table of scheduled sources is as before. When
  \<open>\<delta> = 0\<close> exactly the frame is not dropped: its payload is decoded and a source is
  started at the current context time and registered under the frame's sequence number
  (unless decoding itself throws).
\<close>

theorem frame_admission:
  fixes clockSync :: "real ClockSync"
  shows
  "(frame_timestamp frame - now clockSync dateNow < 0 \<longrightarrow>
      fst (scheduleFrame p clockSync dateNow currentTime decodeAudioData frame)
        = DroppedLate (- (frame_timestamp frame - now clockSync dateNow) * 1000)
      \<and> scheduledSources (snd (scheduleFrame p clockSync dateNow currentTime decodeAudioData frame))
        = scheduledSources p)
   \<and> (frame_timestamp frame - now clockSync dateNow > 10 \<longrightarrow>
      fst (scheduleFrame p clockSync dateNow currentTime decodeAudioData frame)
        = DroppedTooFar ((frame_timestamp frame - now clockSync dateNow) * 1000)
      \<and> scheduledSources (snd (scheduleFrame p clockSync dateNow currentTime decodeAudioData frame))
        = scheduledSources p)
   \<and> (frame_timestamp frame - now clockSync dateNow = 0 \<longrightarrow>
      fst (scheduleFrame p clockSync dateNow currentTime decodeAudioData frame)
        = (case decodeAudioData (data frame) of
             None \<Rightarrow> DecodeThrows
           | Some audioBuffer \<Rightarrow> Started \<lparr>buffer = audioBuffer, startTime = currentTime\<rparr>)
      \<and> scheduledSources (snd (scheduleFrame p clockSync dateNow currentTime decodeAudioData frame))
        = (case decodeAudioData (data frame) of
             None \<Rightarrow> scheduledSources p
           | Some audioBuffer \<Rightarrow>
               (scheduledSources p)(sequence frame \<mapsto> \<lparr>buffer = audioBuffer, startTime = currentTime\<rparr>)))"
  by (simp add: scheduleFrame_def Let_def init_def split: option.splits)

text \<open>
  Witness for C2: with \<open>now() = 10\<close>, a frame for 9.8 is dropped 200 ms late, a frame
  for 21 is dropped 11 s ahead, and a frame for exactly 10 is started.
\<close>

theorem frame_admission_witness:
  "(98 / 10 :: real) - now (new_ClockSync :: real ClockSync) 10000 < 0
   \<and> (21 :: real) - now (new_ClockSync :: real ClockSync) 10000 > 10
   \<and> (10 :: real) - now (new_ClockSync :: real ClockSync) 10000 = 0
   \<and> fst (scheduleFrame (new_FutureAudioPlayer 80) (new_ClockSync :: real ClockSync) 10000 7 Some
        \<lparr>data = [1, 2, 3, 4], frame_timestamp = 98 / 10, duration = 2 / 100, frameType = Audio, sequence = 1\<rparr>)
     = DroppedLate 200
   \<and> fst (scheduleFrame (new_FutureAudioPlayer 80) (new_ClockSync :: real ClockSync) 10000 7 Some
        \<lparr>data = [1, 2, 3, 4], frame_timestamp = 21, duration = 2 / 100, frameType = Audio, sequence = 1\<rparr>)
     = DroppedTooFar 11000
   \<and> fst (scheduleFrame (new_FutureAudioPlayer 80) (new_ClockSync :: real ClockSync) 10000 7 Some
        \<lparr>data = [1, 2, 3, 4], frame_timestamp = 10, duration = 2 / 100, frameType = Audio, sequence = 1\<rparr>)
     = Started \<lparr>buffer = [1, 2, 3, 4], startTime = 7\<rparr>"
proof -
  have n: "now (new_ClockSync :: real ClockSync) 10000 = 10"
    by (simp add: now_def new_ClockSync_def)
  have late: "(98 / 10 :: real) - now (new_ClockSync :: real ClockSync) 10000 < 0"
    by (simp add: n)
  have far: "(21 :: real) - now (new_ClockSync :: real ClockSync) 10000 > 10"
    by (simp add: n)
  have exact: "(10 :: real) - now (new_ClockSync :: real ClockSync) 10000 = 0"
    by (simp add: n)
  show ?thesis
    using late far exact
      frame_admission [of "\<lparr>data = [1, 2, 3, 4], frame_timestamp = 98 / 10, duration = 2 / 100, frameType = Audio, sequence = 1\<rparr>"
        "new_ClockSync" 10000 "new_FutureAudioPlayer 80" 7 Some]
      frame_admission [of "\<lparr>data = [1, 2, 3, 4], frame_timestamp = 21, duration = 2 / 100, frameType = Audio, sequence = 1\<rparr>"
        "new_ClockSync" 10000 "new_FutureAudioPlayer 80" 7 Some]
      frame_admission [of "\<lparr>data = [1, 2, 3, 4], frame_timestamp = 10, duration = 2 / 100, frameType = Audio, sequence = 1\<rparr>"
        "new_ClockSync" 10000 "new_FutureAudioPlayer 80" 7 Some]
    by (simp add: n)
qed

section \<open>Drift estimation\<close>

text \<open>The closed form is the least-squares line: it satisfies the normal equations.\<close>

lemma sum_residual_expand:
  fixes a b :: real
  shows "(\<Sum>s\<leftarrow>ss. offset s - (a + b * timestamp s)) =
         (\<Sum>s\<leftarrow>ss. offset s) - real (length ss) * a - b * (\<Sum>s\<leftarrow>ss. timestamp s)"
  by (induction ss) (simp_all add: algebra_simps)

lemma sum_residual_t_expand:
  fixes a b :: real
  shows "(\<Sum>s\<leftarrow>ss. (offset s - (a + b * timestamp s)) * timestamp s) =
         (\<Sum>s\<leftarrow>ss. timestamp s * offset s) - a * (\<Sum>s\<leftarrow>ss. timestamp s)
           - b * (\<Sum>s\<leftarrow>ss. timestamp s * timestamp s)"
  by (induction ss) (simp_all add: algebra_simps)

lemma squared_error_shift:
  fixes a b a' b' :: real
  shows "squared_error_spec ss a b =
     squared_error_spec ss a' b'
     + 2 * (a' - a) * (\<Sum>s\<leftarrow>ss. offset s - (a' + b' * timestamp s))
     + 2 * (b' - b) * (\<Sum>s\<leftarrow>ss. (offset s - (a' + b' * timestamp s)) * timestamp s)
     + (\<Sum>s\<leftarrow>ss. ((a' - a) + (b' - b) * timestamp s) * ((a' - a) + (b' - b) * timestamp s))"
  unfolding squared_error_spec_def
  by (induction ss) (simp_all add: algebra_simps)

lemma sum_squares_nonneg:
  fixes f :: "'b \<Rightarrow> real"
  shows "0 \<le> (\<Sum>s\<leftarrow>ss. f s * f s)"
  by (induction ss) simp_all

lemma ols_normal_equations:
  assumes d: "ols_denominator_spec ss \<noteq> 0"
  shows "(\<Sum>s\<leftarrow>ss. offset s - (ols_intercept_spec ss + ols_slope_spec ss * timestamp s)) = 0"
    and "(\<Sum>s\<leftarrow>ss. (offset s - (ols_intercept_spec ss + ols_slope_spec ss * timestamp s)) * timestamp s) = 0"
proof -
  have n: "real (length ss) \<noteq> 0"
    using d by (auto simp: ols_denominator_spec_def)
  define n' where "n' = real (length ss)"
  define st where "st = (\<Sum>s\<leftarrow>ss. timestamp s)"
  define sy where "sy = (\<Sum>s\<leftarrow>ss. offset s)"
  define sty where "sty = (\<Sum>s\<leftarrow>ss. timestamp s * offset s)"
  define stt where "stt = (\<Sum>s\<leftarrow>ss. timestamp s * timestamp s)"
  define b where "b = ols_slope_spec ss"
  define a where "a = ols_intercept_spec ss"
  have D: "n' * stt - st * st \<noteq> 0" and n0: "n' \<noteq> 0"
    using d n by (simp_all add: ols_denominator_spec_def n'_def st_def stt_def)
  have bD: "b * (n' * stt - st * st) = n' * sty - st * sy"
    using D by (simp add: b_def ols_slope_spec_def ols_denominator_spec_def n'_def st_def sy_def sty_def stt_def)
  have an: "a * n' = sy - b * st"
    using n0 by (simp add: a_def ols_intercept_spec_def b_def n'_def st_def sy_def)
  have one: "sy - n' * a - b * st = 0"
    using an by (simp add: algebra_simps)
  have "n' * (sty - a * st - b * stt) = n' * sty - (a * n') * st - b * (n' * stt)"
    by (simp add: algebra_simps)
  also have "\<dots> = (n' * sty - st * sy) - b * (n' * stt - st * st)"
    unfolding an by (simp add: algebra_simps)
  also have "\<dots> = 0"
    using bD by simp
  finally have two: "sty - a * st - b * stt = 0"
    using n0 by simp
  show "(\<Sum>s\<leftarrow>ss. offset s - (ols_intercept_spec ss + ols_slope_spec ss * timestamp s)) = 0"
    unfolding sum_residual_expand using one
    by (simp add: a_def b_def n'_def st_def sy_def)
  show "(\<Sum>s\<leftarrow>ss. (offset s - (ols_intercept_spec ss + ols_slope_spec ss * timestamp s)) * timestamp s) = 0"
    unfolding sum_residual_t_expand using two
    by (simp add: a_def b_def st_def sty_def stt_def)
qed

lemma ols_slope_spec_least_squares:
  assumes d: "ols_denominator_spec ss \<noteq> 0"
  shows "squared_error_spec ss (ols_intercept_spec ss) (ols_slope_spec ss) \<le> squared_error_spec ss a b"
proof -
  have "squared_error_spec ss a b =
      squared_error_spec ss (ols_intercept_spec ss) (ols_slope_spec ss)
      + (\<Sum>s\<leftarrow>ss. ((ols_intercept_spec ss - a) + (ols_slope_spec ss - b) * timestamp s)
                * ((ols_intercept_spec ss - a) + (ols_slope_spec ss - b) * timestamp s))"
    by (simp add: squared_error_shift [of ss a b "ols_intercept_spec ss" "ols_slope_spec ss"]
        ols_normal_equations [OF d])
  then show ?thesis
    using sum_squares_nonneg [of "\<lambda>s. (ols_intercept_spec ss - a) + (ols_slope_spec ss - b) * timestamp s" ss]
    by simp
qed

text \<open>The loop of \<open>calculateDrift\<close> computes the four sums, on times measured from \<open>t0\<close>.\<close>

lemma num_of_nat_real: "(num_of_nat n :: real) = of_nat n"
  by (induction n) simp_all











section \<open>Reading the clock\<close>

lemma now_real: "now (c::real ClockSync) d = d / 1000 * (1 + drift c) + clock_offset c - drift c * lastSyncTime c"
  by (simp add: now_def Let_def algebra_simps)

text \<open>
  Any drift is reachable: from a new clock, three quick samples one second apart with
  offsets \<open>0\<close>, \<open>-k\<close> and \<open>-2k\<close> lie on a line of slope \<open>-k\<close>.
\<close>

lemma drift_three_quick_samples:
  fixes k :: real
  shows "drift (run [Quick 0 0 0, Quick (- k) 0 1000, Quick (- 2 * k) 0 2000]) = - k"
  by (simp add: run_def updateQuickSample_def addSample_def calculateDrift_def Let_def
      new_ClockSync_def maxSamples_def slice_last_def regression_step_def
      num_of_nat_real filterWeight_def)

text \<open>
  C5 (as amended). Over exact reals (the rounding of doubles is not modelled): with
  offset, drift and anchor fixed, \<open>now()\<close> is monotone non-decreasing in the local time
  if and only if \<open>drift \<ge> -1\<close>, and when \<open>drift < -1\<close> it strictly decreases as the local
  time grows. The states reachable by submissions do not all have \<open>drift \<ge> -1\<close>: for
  every real \<open>k\<close>, three quick samples one second apart with offsets \<open>0\<close>, \<open>-k\<close>, \<open>-2k\<close>
  take a new clock to \<open>drift = -k\<close>, so the drift of a reachable state is not bounded
  below.
\<close>

theorem now_monotone_iff:
  fixes c :: "real ClockSync" and k :: real
  shows "(\<forall>a b. a \<le> b \<longrightarrow> now c a \<le> now c b) = (- 1 \<le> drift c)
       \<and> (drift c < - 1 \<longrightarrow> (\<forall>a b. a < b \<longrightarrow> now c b < now c a))
       \<and> drift (run [Quick 0 0 0, Quick (- k) 0 1000, Quick (- 2 * k) 0 2000]) = - k"
proof (intro conjI)
  show "(\<forall>a b. a \<le> b \<longrightarrow> now c a \<le> now c b) = (- 1 \<le> drift c)"
  proof
    assume m: "\<forall>a b. a \<le> b \<longrightarrow> now c a \<le> now c b"
    then have "now c 0 \<le> now c 1000" by simp
    then show "- 1 \<le> drift c" by (simp add: now_real)
  next
    assume d: "- 1 \<le> drift c"
    show "\<forall>a b. a \<le> b \<longrightarrow> now c a \<le> now c b"
    proof (intro allI impI)
      fix a b :: real
      assume "a \<le> b"
      then have "a / 1000 * (1 + drift c) \<le> b / 1000 * (1 + drift c)"
        using d by (intro mult_right_mono) simp_all
      then show "now c a \<le> now c b" by (simp add: now_real)
    qed
  qed
next
  show "drift c < - 1 \<longrightarrow> (\<forall>a b. a < b \<longrightarrow> now c b < now c a)"
  proof (intro allI impI)
    fix a b :: real
    assume d: "drift c < - 1" and "a < b"
    then have "b / 1000 * (1 + drift c) < a / 1000 * (1 + drift c)"
      by (intro mult_strict_right_mono_neg) simp_all
    then show "now c b < now c a" by (simp add: now_real)
  qed
next
  show "drift (run [Quick 0 0 0, Quick (- k) 0 1000, Quick (- 2 * k) 0 2000]) = - k"
    by (rule drift_three_quick_samples)
qed

text \<open>
  Witness for C5 (as amended): the state reached with \<open>k = 1/2\<close> has drift \<open>-1/2\<close> and
  \<open>now()\<close> at 2 s is not later than at 3 s; the state reached with \<open>k = 3\<close> has drift
  \<open>-3\<close> and \<open>now()\<close> at 3 s is earlier than at 2 s.
\<close>

theorem now_monotone_iff_witness:
  "drift (run [Quick 0 0 0, Quick (- (1 / 2)) 0 1000, Quick (- 2 * (1 / 2)) 0 (2000::real)]) = - (1 / 2)
   \<and> now (run [Quick 0 0 0, Quick (- (1 / 2)) 0 1000, Quick (- 2 * (1 / 2)) 0 (2000::real)]) 2000
       \<le> now (run [Quick 0 0 0, Quick (- (1 / 2)) 0 1000, Quick (- 2 * (1 / 2)) 0 (2000::real)]) 3000
   \<and> drift (run [Quick 0 0 0, Quick (- 3) 0 1000, Quick (- 2 * 3) 0 (2000::real)]) = - 3
   \<and> now (run [Quick 0 0 0, Quick (- 3) 0 1000, Quick (- 2 * 3) 0 (2000::real)]) 3000
       < now (run [Quick 0 0 0, Quick (- 3) 0 1000, Quick (- 2 * 3) 0 (2000::real)]) 2000"
proof -
  let ?c1 = "run [Quick 0 0 0, Quick (- (1 / 2)) 0 1000, Quick (- 2 * (1 / 2)) 0 (2000::real)]"
  let ?c3 = "run [Quick 0 0 0, Quick (- 3) 0 1000, Quick (- 2 * 3) 0 (2000::real)]"
  note t1 = now_monotone_iff [of ?c1 "1 / 2"]
  note t3 = now_monotone_iff [of ?c3 3]
  from t1 have d1: "drift ?c1 = - (1 / 2)" by blast
  then have "- 1 \<le> drift ?c1" by simp
  with t1 have "\<forall>a b. a \<le> b \<longrightarrow> now ?c1 a \<le> now ?c1 b" by blast
  then have m1: "now ?c1 2000 \<le> now ?c1 3000" by simp
  from t3 have d3: "drift ?c3 = - 3" by blast
  then have "drift ?c3 < - 1" by simp
  with t3 have "\<forall>a b. a < b \<longrightarrow> now ?c3 b < now ?c3 a" by blast
  then have m3: "now ?c3 3000 < now ?c3 2000" by simp
  from d1 m1 d3 m3 show ?thesis by blast
qed

text \<open>
  Counterexample to C5 as stated. Three quick samples one second apart with offsets
  0, -2, -4 give drift -2; on the state they reach, \<open>now()\<close> read at local time 3 s
  is earlier than \<open>now()\<close> read at 2 s.
\<close>

theorem now_runs_backwards:
  "(2000::real) \<le> 3000
   \<and> drift (run [Quick 0 0 0, Quick (- 2) 0 1000, Quick (- 4) 0 (2000::real)]) = - 2
   \<and> now (run [Quick 0 0 0, Quick (- 2) 0 1000, Quick (- 4) 0 (2000::real)]) 3000
       < now (run [Quick 0 0 0, Quick (- 2) 0 1000, Quick (- 4) 0 (2000::real)]) 2000"
  by (simp add: run_def updateQuickSample_def addSample_def calculateDrift_def Let_def
      new_ClockSync_def maxSamples_def slice_last_def regression_step_def now_def
      num_of_nat_real filterWeight_def)

section \<open>Non-finite samples\<close>

lemma numeral_jsnum: "(numeral k :: jsnum) = Fin (numeral k)"
proof (induction k)
  case One
  show ?case by (simp only: numeral_One one_jsnum_def)
next
  case (Bit0 k)
  have "(numeral (num.Bit0 k) :: jsnum) = Fin (numeral k) + Fin (numeral k)"
    by (simp only: numeral_Bit0 Bit0.IH)
  also have "\<dots> = Fin (numeral (num.Bit0 k))"
    by (simp only: plus_jsnum.simps numeral_Bit0)
  finally show ?case .
next
  case (Bit1 k)
  have "(numeral (num.Bit1 k) :: jsnum) = Fin (numeral k) + Fin (numeral k) + Fin 1"
    by (simp only: numeral_Bit1 Bit1.IH one_jsnum_def)
  also have "\<dots> = Fin (numeral (num.Bit1 k))"
    by (simp only: plus_jsnum.simps numeral_Bit1)
  finally show ?case .
qed

lemma filterWeight_jsnum: "(filterWeight :: jsnum) = Fin (1 / 10)"
  by (simp add: filterWeight_def numeral_jsnum one_jsnum_def)

lemma nan_plus [simp]: "x + NaN = NaN"
  by (cases x) simp_all

lemma nan_times [simp]: "x * NaN = NaN"
  by (cases x) simp_all

text \<open>
  C6 (as amended). Non-finite values are not filtered. Every submission, also one
  whose arithmetic produces NaN or an infinity, appends its sample to the ring, sets the
  anchor to the sample's receive time and fuses the offset by the moving average in
  IEEE arithmetic; a NaN offset measurement makes the offset NaN.
\<close>

theorem no_finiteness_check:
  fixes c :: "jsnum ClockSync"
  shows "samples (addSample c x) = drop (Suc (length (samples c)) - 20) (samples c) @ [x]
       \<and> lastSyncTime (addSample c x) = timestamp x
       \<and> clock_offset (addSample c x) = clock_offset c * Fin (9 / 10) + offset x * Fin (1 / 10)
       \<and> clock_offset (addSample c (x\<lparr>offset := NaN\<rparr>)) = NaN
       \<and> handleResponse c lastSyncT1 response dateNow =
           addSample c
             \<lparr>offset = ((t2 response - stored_or_echoed_t1 lastSyncT1 response)
                         + (t3 response - dateNow / 1000)) / 2,
              rtt = (dateNow / 1000 - stored_or_echoed_t1 lastSyncT1 response)
                      - (t3 response - t2 response),
              timestamp = dateNow / 1000\<rparr>
       \<and> updateQuickSample c offset' rtt' dateNow =
           addSample c \<lparr>offset = offset', rtt = rtt', timestamp = dateNow / 1000\<rparr>"
  by (simp add: clock_offset_addSample samples_addSample lastSyncTime_addSample
      filterWeight_jsnum one_jsnum_def minus_jsnum_def maxSamples_def
      handleResponse_def updateQuickSample_def Let_def)

text \<open>
  Counterexample to C6 as stated. A probe reply whose \<open>t2\<close> is infinite (what
  \<^verbatim>\<open>JSON.parse\<close> makes of \<^verbatim>\<open>1e999\<close>) gives an infinite offset measurement and
  round-trip time. From a new clock the sample is appended, the offset becomes infinite
  and the anchor moves from 0 to 1. A quick sample with a NaN offset makes the offset NaN.
\<close>

theorem non_finite_sample_enters_state:
  "samples (handleResponse (new_ClockSync :: jsnum ClockSync) None
              \<lparr>t1 = Fin 0, t2 = PInf, t3 = Fin 0\<rparr> (Fin 1000))
     = [\<lparr>offset = PInf, rtt = PInf, timestamp = Fin 1\<rparr>]
   \<and> clock_offset (handleResponse (new_ClockSync :: jsnum ClockSync) None
              \<lparr>t1 = Fin 0, t2 = PInf, t3 = Fin 0\<rparr> (Fin 1000)) = PInf
   \<and> lastSyncTime (handleResponse (new_ClockSync :: jsnum ClockSync) None
              \<lparr>t1 = Fin 0, t2 = PInf, t3 = Fin 0\<rparr> (Fin 1000)) = Fin 1
   \<and> clock_offset (updateQuickSample (new_ClockSync :: jsnum ClockSync) NaN (Fin 0) (Fin 1000)) = NaN
   \<and> samples (updateQuickSample (new_ClockSync :: jsnum ClockSync) NaN (Fin 0) (Fin 1000))
       = [\<lparr>offset = NaN, rtt = Fin 0, timestamp = Fin 1\<rparr>]
   \<and> clock_offset (new_ClockSync :: jsnum ClockSync) = Fin 0
   \<and> samples (new_ClockSync :: jsnum ClockSync) = []
   \<and> lastSyncTime (new_ClockSync :: jsnum ClockSync) = Fin 0"
  by (simp add: handleResponse_def updateQuickSample_def Let_def stored_or_echoed_t1_def
      clock_offset_addSample samples_addSample lastSyncTime_addSample
      new_ClockSync_def filterWeight_jsnum one_jsnum_def minus_jsnum_def zero_jsnum_def
      numeral_jsnum maxSamples_def)

section \<open>Round-trip time and network quality\<close>

text \<open>
  C8 (as amended). \<open>getLastRTT\<close> returns the round-trip time of the most recent
  sample in milliseconds, that is 1000 times the stored value in seconds: after a quick
  sample, after a probe reply, after any insertion. It returns 0 on a new or reset clock.
\<close>

theorem last_rtt_in_milliseconds:
  fixes c :: "real ClockSync"
  shows "getLastRTT (updateQuickSample c offset' rtt' dateNow) = rtt' * 1000
       \<and> getLastRTT (handleResponse c lastSyncT1 response dateNow) =
           ((dateNow / 1000 - stored_or_echoed_t1 lastSyncT1 response) - (t3 response - t2 response)) * 1000
       \<and> getLastRTT (addSample c x) = rtt (last (samples (addSample c x))) * 1000
       \<and> getLastRTT (new_ClockSync :: real ClockSync) = 0
       \<and> getLastRTT (reset c) = 0"
  by (simp add: getLastRTT_updateQuickSample getLastRTT_addSample handleResponse_def Let_def
      samples_addSample)
     (simp add: getLastRTT_def new_ClockSync_def reset_def)

text \<open>
  Counterexample to C8 as stated. After a quick sample with a round trip of 0.05 s
  the most recent sample holds 0.05 and \<open>getLastRTT\<close> returns 50.
\<close>

theorem last_rtt_not_seconds:
  "rtt (last (samples (updateQuickSample (new_ClockSync :: real ClockSync) 0 (5 / 100) 0))) = 5 / 100
   \<and> getLastRTT (updateQuickSample (new_ClockSync :: real ClockSync) 0 (5 / 100) 0) = 50"
  by (simp add: getLastRTT_updateQuickSample samples_updateQuickSample)

text \<open>
  C7 (as amended). The quality level is decided by the thresholds 10, 50, 100 and
  200 ms from the raw round-trip time of the most recent sample alone, whatever the
  clock held before; a clock without samples reports Excellent. Nothing is smoothed and
  loss is no input.
\<close>

theorem quality_from_last_raw_rtt:
  fixes c :: "real ClockSync"
  shows "getNetworkQuality (updateQuickSample c offset' rtt' dateNow) =
           (if rtt' * 1000 < 10 then Excellent
            else if rtt' * 1000 < 50 then Good
            else if rtt' * 1000 < 100 then Fair
            else if rtt' * 1000 < 200 then Poor
            else Critical)
       \<and> getNetworkQuality (addSample c x) =
           (if rtt x * 1000 < 10 then Excellent
            else if rtt x * 1000 < 50 then Good
            else if rtt x * 1000 < 100 then Fair
            else if rtt x * 1000 < 200 then Poor
            else Critical)
       \<and> getNetworkQuality (new_ClockSync :: real ClockSync) = Excellent"
  by (simp add: getNetworkQuality_def Let_def getLastRTT_updateQuickSample getLastRTT_addSample)
     (simp add: getLastRTT_def new_ClockSync_def)

text \<open>
  Counterexample to C7 as stated. After three samples with a round trip of 5 ms the
  quality is Excellent; one sample of 60 ms makes it Fair at once, while the round trip
  smoothed with weight 0.1 over these four samples is still below 10 ms.
\<close>

theorem quality_jumps_with_raw_rtt:
  "getNetworkQuality
     (updateQuickSample (updateQuickSample (updateQuickSample
        (new_ClockSync :: real ClockSync) 0 (5 / 1000) 0) 0 (5 / 1000) 1000) 0 (5 / 1000) 2000) = Excellent
   \<and> getNetworkQuality
     (updateQuickSample (updateQuickSample (updateQuickSample (updateQuickSample
        (new_ClockSync :: real ClockSync) 0 (5 / 1000) 0) 0 (5 / 1000) 1000) 0 (5 / 1000) 2000) 0 (60 / 1000) 3000) = Fair
   \<and> map rtt (samples
     (updateQuickSample (updateQuickSample (updateQuickSample (updateQuickSample
        (new_ClockSync :: real ClockSync) 0 (5 / 1000) 0) 0 (5 / 1000) 1000) 0 (5 / 1000) 2000) 0 (60 / 1000) 3000))
      = [5 / 1000, 5 / 1000, 5 / 1000, 60 / 1000]
   \<and> smoothed_rtt_spec [5 / 1000, 5 / 1000, 5 / 1000, 60 / 1000] * 1000 < 10"
  by (simp add: getNetworkQuality_def Let_def getLastRTT_updateQuickSample
      samples_updateQuickSample new_ClockSync_def smoothed_rtt_spec_def maxSamples_def)

section \<open>Quick samples\<close>

text \<open>
  C10. A quick sample goes through \<open>addSample\<close> exactly as a probe does: a probe reply
  has the effect of the quick sample of its computed offset and round-trip time at the
  same instant. The offset moves by the moving average with weight 0.1, the anchor
  becomes the receive time, the sample is appended whatever its round-trip time, and
  drift is recomputed by the same call. A heartbeat carrying a non-zero server time
  submits such a quick sample.
\<close>

theorem quick_sample_same_path:
  fixes c :: "real ClockSync"
  shows "updateQuickSample c offset' rtt' dateNow =
           addSample c \<lparr>offset = offset', rtt = rtt', timestamp = dateNow / 1000\<rparr>
       \<and> handleResponse c lastSyncT1 response dateNow =
           updateQuickSample c
             (((t2 response - stored_or_echoed_t1 lastSyncT1 response) + (t3 response - dateNow / 1000)) / 2)
             ((dateNow / 1000 - stored_or_echoed_t1 lastSyncT1 response) - (t3 response - t2 response))
             dateNow
       \<and> clock_offset (updateQuickSample c offset' rtt' dateNow) = (1 - 0.1) * clock_offset c + 0.1 * offset'
       \<and> lastSyncTime (updateQuickSample c offset' rtt' dateNow) = dateNow / 1000
       \<and> samples (updateQuickSample c offset' rtt' dateNow) =
           drop (Suc (length (samples c)) - 20) (samples c) @
             [\<lparr>offset = offset', rtt = rtt', timestamp = dateNow / 1000\<rparr>]
       \<and> handleHeartbeat c \<lparr>client_time = ct, server_time = Some st\<rparr> dateNow1 dateNow2 dateNow3 =
           (if st = 0 then c
            else addSample c
              \<lparr>offset = st - dateNow2 / 1000 + (dateNow1 / 1000 - ct) / 2,
               rtt = dateNow1 / 1000 - ct,
               timestamp = dateNow3 / 1000\<rparr>)"
  by (simp add: handleResponse_def updateQuickSample_def handleHeartbeat_def Let_def
      clock_offset_addSample lastSyncTime_addSample samples_addSample filterWeight_def
      maxSamples_def truthy_real)

end
